theory Spec2Isabelle
  imports Complex_Main "HOL-Library.Multiset"
begin

section \<open>Exceptions as values\<close>

text \<open>
  The scripts meet two exceptions of the Python library: \<open>ValueError\<close> (a date string
  that does not parse, and the explicit \<open>raise\<close> of \<open>analyze_outliers\<close>) and
  \<open>OverflowError\<close> (date arithmetic that leaves the range of \<open>datetime\<close>).
\<close>

datatype error = ValueError | OverflowError

section \<open>The calendar of the datetime library\<close>

text \<open>
  Only midnight values occur (the format is \<open>%Y-%m-%d\<close>), so a \<open>datetime\<close> is
  modelled by its date fields. Differences and sums of dates go through the proleptic
  Gregorian ordinal, day 1 being 0001-01-01, as in the library.
\<close>

record datetime =
  year :: int
  month :: int
  day :: int

definition MAXORDINAL :: int where
  "MAXORDINAL = 3652059"

definition is_leap :: "int \<Rightarrow> bool" where
  "is_leap y = (y mod 4 = 0 \<and> (y mod 100 \<noteq> 0 \<or> y mod 400 = 0))"

definition days_before_year :: "int \<Rightarrow> int" where
  "days_before_year y = (y - 1) * 365 + (y - 1) div 4 - (y - 1) div 100 + (y - 1) div 400"

definition DAYS_IN_MONTH :: "int list" where
  "DAYS_IN_MONTH = [-1, 31, 28, 31, 30, 31, 30, 31, 31, 30, 31, 30, 31]"

definition DAYS_BEFORE_MONTH :: "int list" where
  "DAYS_BEFORE_MONTH = [-1, 0, 31, 59, 90, 120, 151, 181, 212, 243, 273, 304, 334]"

definition days_in_month :: "int \<Rightarrow> int \<Rightarrow> int" where
  "days_in_month y m = (if m = 2 \<and> is_leap y then 29 else DAYS_IN_MONTH ! nat m)"

definition days_before_month :: "int \<Rightarrow> int \<Rightarrow> int" where
  "days_before_month y m = DAYS_BEFORE_MONTH ! nat m + (if m > 2 \<and> is_leap y then 1 else 0)"

definition ymd2ord :: "int \<Rightarrow> int \<Rightarrow> int \<Rightarrow> int" where
  "ymd2ord y m d = days_before_year y + days_before_month y m + d"

definition ord2ymd :: "int \<Rightarrow> datetime" where
  "ord2ymd n0 =
    (let n = n0 - 1;
         n400 = n div 146097; n = n mod 146097;
         y = n400 * 400 + 1;
         n100 = n div 36524; n = n mod 36524;
         n4 = n div 1461; n = n mod 1461;
         n1 = n div 365; n = n mod 365;
         y = y + n100 * 100 + n4 * 4 + n1
     in if n1 = 4 \<or> n100 = 4 then \<lparr>year = y - 1, month = 12, day = 31\<rparr>
        else
          let leapyear = (n1 = 3 \<and> (n4 \<noteq> 24 \<or> n100 = 3));
              m = (n + 50) div 32;
              preceding = DAYS_BEFORE_MONTH ! nat m + (if m > 2 \<and> leapyear then 1 else 0)
          in if preceding > n
             then let m = m - 1;
                      preceding = preceding - (DAYS_IN_MONTH ! nat m + (if m = 2 \<and> leapyear then 1 else 0))
                  in \<lparr>year = y, month = m, day = n - preceding + 1\<rparr>
             else \<lparr>year = y, month = m, day = n - preceding + 1\<rparr>)"

definition toordinal :: "datetime \<Rightarrow> int" where
  "toordinal dt = ymd2ord (year dt) (month dt) (day dt)"

text \<open>\<open>dt + timedelta(days=k)\<close>: the library raises \<open>OverflowError\<close> outside 1..MAXORDINAL.\<close>

definition add_days :: "datetime \<Rightarrow> int \<Rightarrow> error + datetime" where
  "add_days dt k =
    (let n = toordinal dt + k
     in if 0 < n \<and> n \<le> MAXORDINAL then Inr (ord2ymd n) else Inl OverflowError)"

text \<open>The constructor \<open>datetime(y, m, d)\<close> raises \<open>ValueError\<close> on a date that does not exist.\<close>

definition new_datetime :: "int \<Rightarrow> int \<Rightarrow> int \<Rightarrow> error + datetime" where
  "new_datetime y m d =
    (if 1 \<le> y \<and> y \<le> 9999 \<and> 1 \<le> m \<and> m \<le> 12 \<and> 1 \<le> d \<and> d \<le> days_in_month y m
     then Inr \<lparr>year = y, month = m, day = d\<rparr> else Inl ValueError)"

section \<open>strptime and strftime for the format %Y-%m-%d\<close>

definition is_digit :: "char \<Rightarrow> bool" where
  "is_digit c = (c \<in> set ''0123456789'')"

definition digit_val :: "char \<Rightarrow> int" where
  "digit_val c = int (of_char c) - 48"

definition digit_char :: "int \<Rightarrow> char" where
  "digit_char d = ''0123456789'' ! nat d"

text \<open>
  The library turns the format into the regular expression
  \<open>(\d\d\d\d)-(1[0-2]|0[1-9]|[1-9])-(3[01]|[12]\d|0[1-9]|[1-9]| [1-9])\<close>, matches it at
  the start of the string and raises \<open>ValueError\<close> if it does not match or if input
  remains. The alternatives are tried in this order.
\<close>

fun match_year :: "string \<Rightarrow> (int \<times> string) option" where
  "match_year (a # b # c # d # r) =
     (if is_digit a \<and> is_digit b \<and> is_digit c \<and> is_digit d
      then Some (digit_val a * 1000 + digit_val b * 100 + digit_val c * 10 + digit_val d, r)
      else None)"
| "match_year _ = None"

fun match_dash :: "string \<Rightarrow> string option" where
  "match_dash (c # r) = (if c = CHR ''-'' then Some r else None)"
| "match_dash [] = None"

fun match_month :: "string \<Rightarrow> (int \<times> string) option" where
  "match_month (a # b # r) =
     (if a = CHR ''1'' \<and> b \<in> set ''012'' then Some (10 + digit_val b, r)
      else if a = CHR ''0'' \<and> b \<in> set ''123456789'' then Some (digit_val b, r)
      else if a \<in> set ''123456789'' then Some (digit_val a, b # r)
      else None)"
| "match_month [a] = (if a \<in> set ''123456789'' then Some (digit_val a, []) else None)"
| "match_month [] = None"

fun match_day :: "string \<Rightarrow> (int \<times> string) option" where
  "match_day (a # b # r) =
     (if a = CHR ''3'' \<and> b \<in> set ''01'' then Some (30 + digit_val b, r)
      else if a \<in> set ''12'' \<and> is_digit b then Some (digit_val a * 10 + digit_val b, r)
      else if a = CHR ''0'' \<and> b \<in> set ''123456789'' then Some (digit_val b, r)
      else if a \<in> set ''123456789'' then Some (digit_val a, b # r)
      else if a = CHR '' '' \<and> b \<in> set ''123456789'' then Some (digit_val b, r)
      else None)"
| "match_day [a] = (if a \<in> set ''123456789'' then Some (digit_val a, []) else None)"
| "match_day [] = None"

definition strptime :: "string \<Rightarrow> error + datetime" where
  "strptime s =
    (case match_year s of None \<Rightarrow> Inl ValueError
     | Some (y, r1) \<Rightarrow>
    (case match_dash r1 of None \<Rightarrow> Inl ValueError
     | Some r2 \<Rightarrow>
    (case match_month r2 of None \<Rightarrow> Inl ValueError
     | Some (m, r3) \<Rightarrow>
    (case match_dash r3 of None \<Rightarrow> Inl ValueError
     | Some r4 \<Rightarrow>
    (case match_day r4 of None \<Rightarrow> Inl ValueError
     | Some (d, r5) \<Rightarrow>
       if r5 = [] then new_datetime y m d else Inl ValueError)))))"

text \<open>
  \<open>%m\<close> and \<open>%d\<close> are printed with two digits. \<open>%Y\<close> is handed to the C
  library, which on Linux prints the year as a plain decimal number: four digits from
  year 1000 on, fewer before (\<open>datetime(999, 5, 1).strftime('%Y-%m-%d')\<close> is
  \<open>'999-05-01'\<close>).
\<close>

definition pad2 :: "int \<Rightarrow> string" where
  "pad2 n = [digit_char (n div 10), digit_char (n mod 10)]"

definition year_str :: "int \<Rightarrow> string" where
  "year_str y =
     (if y < 10 then [digit_char y]
      else if y < 100 then [digit_char (y div 10), digit_char (y mod 10)]
      else if y < 1000 then [digit_char (y div 100), digit_char (y div 10 mod 10), digit_char (y mod 10)]
      else [digit_char (y div 1000), digit_char (y div 100 mod 10),
            digit_char (y div 10 mod 10), digit_char (y mod 10)])"

definition strftime :: "datetime \<Rightarrow> string" where
  "strftime dt = year_str (year dt) @ ''-'' @ pad2 (month dt) @ ''-'' @ pad2 (day dt)"

section \<open>Week bucketing\<close>

text \<open>
  The body shared by every copy of \<open>get_week_start_date\<close>; the copies differ in the
  reference date and in whether \<open>ValueError\<close> is caught.
\<close>

definition week_start_from :: "datetime \<Rightarrow> string \<Rightarrow> error + string" where
  "week_start_from reference_date date_str =
    (case strptime date_str of Inl e \<Rightarrow> Inl e
     | Inr date \<Rightarrow>
        (let days_diff = toordinal date - toordinal reference_date;
             week_number = days_diff div 7
         in case add_days reference_date (week_number * 7) of Inl e \<Rightarrow> Inl e
            | Inr week_start \<Rightarrow> Inr (strftime week_start)))"

text \<open>\<open>src/1_collapse.py\<close>: reference 2024-07-17, nothing caught.\<close>

definition get_week_start_date :: "string \<Rightarrow> error + string" where
  "get_week_start_date date_str =
     week_start_from \<lparr>year = 2024, month = 7, day = 17\<rparr> date_str"

text \<open>
  The copies with \<open>try: ... except ValueError: return None\<close>. Any other exception
  still propagates.
\<close>

definition catch_ValueError :: "error + string \<Rightarrow> error + string option" where
  "catch_ValueError r =
     (case r of Inl ValueError \<Rightarrow> Inr None | Inl e \<Rightarrow> Inl e | Inr w \<Rightarrow> Inr (Some w))"

text \<open>\<open>src/main/5_user_week.py\<close>: reference 2024-07-17.\<close>

definition get_week_start_date_user_week :: "string \<Rightarrow> error + string option" where
  "get_week_start_date_user_week date_str =
     catch_ValueError (week_start_from \<lparr>year = 2024, month = 7, day = 17\<rparr> date_str)"

text \<open>\<open>src/6_summary.py\<close> and \<open>src/7_only_graphs.py\<close>: reference 2024-05-01.\<close>

definition get_week_start_date_summary :: "string \<Rightarrow> error + string option" where
  "get_week_start_date_summary date_str =
     catch_ValueError (week_start_from \<lparr>year = 2024, month = 5, day = 1\<rparr> date_str)"

section \<open>Input data and dictionaries\<close>

text \<open>
  \<open>commits_data\<close> is a JSON object from user name to a user object; a user object may
  carry \<open>daily_commits\<close> (date string to count) and \<open>total_commits\<close>. Dictionaries are
  association lists in insertion order; a dictionary has no repeated key.
\<close>

record user_data =
  daily_commits :: "(string \<times> int) list option"
  total_commits :: "int option"

type_synonym commits_data = "(string \<times> user_data) list"

text \<open>\<open>user_data.get('daily_commits', {})\<close>\<close>

definition get_daily_commits :: "user_data \<Rightarrow> (string \<times> int) list" where
  "get_daily_commits ud = (case daily_commits ud of None \<Rightarrow> [] | Some d \<Rightarrow> d)"

text \<open>\<open>d[k] += v\<close> on a \<open>defaultdict(int)\<close>: a missing key starts from 0 and is appended.\<close>

fun dict_add :: "'k \<Rightarrow> int \<Rightarrow> ('k \<times> int) list \<Rightarrow> ('k \<times> int) list" where
  "dict_add k v [] = [(k, v)]"
| "dict_add k v ((k', x) # d) =
     (if k' = k then (k', x + v) # d else (k', x) # dict_add k v d)"

section \<open>collapse_to_weekly (src/1_collapse.py)\<close>

fun collapse_days :: "(string \<times> int) list \<Rightarrow> (string \<times> int) list \<Rightarrow> error + (string \<times> int) list" where
  "collapse_days [] weekly_commits = Inr weekly_commits"
| "collapse_days ((date_str, commit_count) # rest) weekly_commits =
     (if commit_count > 0
      then (case get_week_start_date date_str of Inl e \<Rightarrow> Inl e
            | Inr week_start \<Rightarrow> collapse_days rest (dict_add week_start commit_count weekly_commits))
      else collapse_days rest weekly_commits)"

fun collapse_users :: "commits_data \<Rightarrow> (string \<times> int) list \<Rightarrow> error + (string \<times> int) list" where
  "collapse_users [] weekly_commits = Inr weekly_commits"
| "collapse_users ((username, ud) # rest) weekly_commits =
     (case collapse_days (get_daily_commits ud) weekly_commits of Inl e \<Rightarrow> Inl e
      | Inr weekly_commits' \<Rightarrow> collapse_users rest weekly_commits')"

definition collapse_to_weekly :: "commits_data \<Rightarrow> error + (string \<times> int) list" where
  "collapse_to_weekly cd = collapse_users cd []"

section \<open>filter_consistent_users (src/6_summary.py, src/7_only_graphs.py)\<close>

text \<open>
  The two copies are the same text. The inner loop fills \<open>user_weekly_commits\<close> for one
  user; the outer loop appends the user when the test on that dictionary holds.
\<close>

fun consistent_days :: "string list \<Rightarrow> (string \<times> int) list \<Rightarrow> (string \<times> int) list \<Rightarrow> error + (string \<times> int) list" where
  "consistent_days pre_treatment_weeks [] user_weekly_commits = Inr user_weekly_commits"
| "consistent_days pre_treatment_weeks ((date_str, commit_count) # rest) user_weekly_commits =
     (if commit_count > 0
      then (case get_week_start_date_summary date_str of Inl e \<Rightarrow> Inl e
            | Inr None \<Rightarrow> consistent_days pre_treatment_weeks rest user_weekly_commits
            | Inr (Some week_start) \<Rightarrow>
                if week_start \<noteq> [] \<and> week_start \<in> set pre_treatment_weeks
                then consistent_days pre_treatment_weeks rest
                       (dict_add week_start commit_count user_weekly_commits)
                else consistent_days pre_treatment_weeks rest user_weekly_commits)
      else consistent_days pre_treatment_weeks rest user_weekly_commits)"

fun consistent_loop :: "commits_data \<Rightarrow> string list \<Rightarrow> string list \<Rightarrow> error + string list" where
  "consistent_loop [] pre_treatment_weeks consistent_users = Inr consistent_users"
| "consistent_loop ((username, ud) # rest) pre_treatment_weeks consistent_users =
     (case consistent_days pre_treatment_weeks (get_daily_commits ud) [] of Inl e \<Rightarrow> Inl e
      | Inr user_weekly_commits \<Rightarrow>
          if length user_weekly_commits = length pre_treatment_weeks
             \<and> list_all (\<lambda>(w, v). v > 0) user_weekly_commits
          then consistent_loop rest pre_treatment_weeks (consistent_users @ [username])
          else consistent_loop rest pre_treatment_weeks consistent_users)"

definition filter_consistent_users :: "commits_data \<Rightarrow> string list \<Rightarrow> error + string list" where
  "filter_consistent_users cd pre_treatment_weeks = consistent_loop cd pre_treatment_weeks []"


section \<open>Conservation of weekly totals\<close>


definition daily_entries :: "commits_data \<Rightarrow> (string \<times> int) list" where
  "daily_entries cd = concat (map (\<lambda>(username, ud). get_daily_commits ud) cd)"






section \<open>Cohort membership\<close>





text \<open>No date with a positive count makes the bucketing leave the range of \<open>datetime\<close>.\<close>

definition no_overflow :: "(string \<times> int) list \<Rightarrow> bool" where
  "no_overflow ds = list_all (\<lambda>(d, c). c > 0 \<longrightarrow> get_week_start_date_summary d \<noteq> Inl OverflowError) ds"


section \<open>Proofs: conservation of weekly totals\<close>













lemmas date_eval =
  get_week_start_date_def week_start_from_def strptime_def is_digit_def digit_val_def
  new_datetime_def days_in_month_def DAYS_IN_MONTH_def toordinal_def ymd2ord_def
  days_before_year_def days_before_month_def DAYS_BEFORE_MONTH_def is_leap_def add_days_def
  MAXORDINAL_def ord2ymd_def Let_def strftime_def pad2_def year_str_def digit_char_def



section \<open>Malformed dates\<close>

text \<open>
  C5. In \<open>src/1_collapse.py\<close> the bucketing function catches nothing, so one date
  string that does not parse makes \<open>collapse_to_weekly\<close> raise \<open>ValueError\<close>; the
  other records are not processed.
\<close>

theorem collapse_to_weekly_malformed_date_aborts:
  "collapse_to_weekly
     [(''u'', \<lparr>daily_commits = Some [(''not-a-date'', 3), (''2024-05-01'', 2)], total_commits = None\<rparr>)]
   = Inl ValueError"
  by (simp add: collapse_to_weekly_def get_daily_commits_def date_eval)

section \<open>Proofs: cohort membership\<close>




lemma summary_week_error: "get_week_start_date_summary d = Inl e \<Longrightarrow> e = OverflowError"
  by (auto simp: get_week_start_date_summary_def catch_ValueError_def
           split: sum.splits error.splits)












lemmas summary_eval = get_week_start_date_summary_def catch_ValueError_def
  week_start_from_def strptime_def is_digit_def digit_val_def
  new_datetime_def days_in_month_def DAYS_IN_MONTH_def toordinal_def ymd2ord_def
  days_before_year_def days_before_month_def DAYS_BEFORE_MONTH_def is_leap_def add_days_def
  MAXORDINAL_def ord2ymd_def Let_def strftime_def pad2_def year_str_def digit_char_def






text \<open>The cohort filter returns unless a date with a positive count overflows.\<close>

lemma consistent_days_returns:
  "no_overflow ds \<Longrightarrow> \<exists>uw'. consistent_days ptw ds uw = Inr uw'"
proof (induction ds arbitrary: uw)
  case Nil
  then show ?case by simp
next
  case (Cons a ds)
  obtain d c where a: "a = (d, c)" by (cases a)
  show ?case
  proof (cases "get_week_start_date_summary d")
    case (Inl e)
    then have "e = OverflowError" by (rule summary_week_error)
    with Inl Cons a show ?thesis by (simp add: no_overflow_def)
  next
    case (Inr w)
    with Cons a show ?thesis by (cases w) (simp_all add: no_overflow_def)
  qed
qed

lemma consistent_loop_returns:
  "no_overflow (daily_entries cd) \<Longrightarrow> \<exists>us. consistent_loop cd ptw acc = Inr us"
proof (induction cd arbitrary: acc)
  case Nil
  then show ?case by simp
next
  case (Cons a cd)
  obtain u ud where a: "a = (u, ud)" by (cases a)
  from Cons.prems a have 1: "no_overflow (get_daily_commits ud)" and 2: "no_overflow (daily_entries cd)"
    by (simp_all add: no_overflow_def daily_entries_def)
  from consistent_days_returns [OF 1] obtain uw where "consistent_days ptw (get_daily_commits ud) [] = Inr uw"
    by blast
  with Cons.IH [OF 2] a show ?case by simp
qed

lemma filter_consistent_users_returns:
  "no_overflow (daily_entries cd) \<Longrightarrow> \<exists>us. filter_consistent_users cd ptw = Inr us"
  unfolding filter_consistent_users_def by (rule consistent_loop_returns)

section \<open>Proofs: the empty pre-treatment window\<close>

lemma consistent_days_empty_window:
  "consistent_days [] ds uw = (if no_overflow ds then Inr uw else Inl OverflowError)"
proof (induction ds)
  case Nil
  then show ?case by (simp add: no_overflow_def)
next
  case (Cons a ds)
  obtain d c where a: "a = (d, c)" by (cases a)
  show ?case
  proof (cases "get_week_start_date_summary d")
    case (Inl e)
    then have "e = OverflowError" by (rule summary_week_error)
    with Inl Cons a show ?thesis by (simp add: no_overflow_def)
  next
    case (Inr w)
    with Cons a show ?thesis by (cases w) (simp_all add: no_overflow_def)
  qed
qed

lemma consistent_loop_empty_window:
  "consistent_loop cd [] acc =
     (if no_overflow (daily_entries cd) then Inr (acc @ map fst cd) else Inl OverflowError)"
proof (induction cd arbitrary: acc)
  case Nil
  then show ?case by (simp add: no_overflow_def daily_entries_def)
next
  case (Cons a cd)
  obtain u ud where a: "a = (u, ud)" by (cases a)
  have "no_overflow (daily_entries (a # cd)) =
        (no_overflow (get_daily_commits ud) \<and> no_overflow (daily_entries cd))"
    by (simp add: a no_overflow_def daily_entries_def)
  with Cons a show ?case
    by (simp add: consistent_days_empty_window)
qed


text \<open>
  C3, as stated, fails: with no pre-treatment week the test \<open>0 == 0 and all([])\<close> holds
  for every user, so every user is returned.
\<close>

theorem filter_consistent_users_empty_window_counterexample:
  "filter_consistent_users
     [(''u'', \<lparr>daily_commits = Some [(''2024-05-01'', 3)], total_commits = None\<rparr>)] []
   = Inr [''u'']"
  by (simp add: filter_consistent_users_def get_daily_commits_def summary_eval)


text \<open>
  C3, amended. With an empty list of pre-treatment weeks \<open>filter_consistent_users\<close>
  returns every user of \<open>commits_data\<close>, in input order (or raises \<open>OverflowError\<close>
  when a date with a positive count overflows).
\<close>

theorem filter_consistent_users_empty_window:
  "filter_consistent_users cd [] =
     (if no_overflow (daily_entries cd) then Inr (map fst cd) else Inl OverflowError)"
  by (simp add: filter_consistent_users_def consistent_loop_empty_window)

theorem filter_consistent_users_empty_window_witness:
  "no_overflow (daily_entries
     [(''a'', \<lparr>daily_commits = Some [(''2024-05-01'', 2)], total_commits = None\<rparr>),
      (''b'', \<lparr>daily_commits = Some [], total_commits = None\<rparr>)])
   \<and> filter_consistent_users
     [(''a'', \<lparr>daily_commits = Some [(''2024-05-01'', 2)], total_commits = None\<rparr>),
      (''b'', \<lparr>daily_commits = Some [], total_commits = None\<rparr>)] [] = Inr [''a'', ''b'']"
proof -
  let ?cd = "[(''a'', \<lparr>daily_commits = Some [(''2024-05-01'', 2)], total_commits = None\<rparr>),
      (''b'', \<lparr>daily_commits = Some [], total_commits = None\<rparr>)]"
  have h: "no_overflow (daily_entries ?cd)"
    by (simp add: no_overflow_def daily_entries_def get_daily_commits_def summary_eval)
  with filter_consistent_users_empty_window [of ?cd] show ?thesis by simp
qed


end
